theory Spec2Isabelle
  imports Complex_Main
begin

section \<open>Python and library values\<close>

text \<open>
  The program is a Python script over numpy arrays. Numbers are modelled as rationals:
  every finite float is a rational, arithmetic is exact (rounding is not modelled), and
  the IEEE special values appear only where the program can create them (the division
  of \<open>return_centroid\<close>). Every exception the code can raise is a value of \<open>error\<close>,
  returned as \<open>Inl\<close>.
\<close>

datatype error =
    IndexError
  | ValueError_target_energy rat
  | ValueError_zero_size
  | ValueError_interp
  | ValueError_int_literal
  | ArangeZeroStep
  | PyteomicsError

text \<open>
  \<open>IndexError\<close>: an index outside a list or an array. \<open>ValueError_target_energy\<close>: the
  ValueError that \<open>interpolate_spectra\<close> raises itself for a target energy outside the
  known energies. \<open>ValueError_zero_size\<close>: numpy's maximum or minimum of an empty array.
  \<open>ValueError_interp\<close>: \<open>np.interp\<close> refusing its sample points. \<open>ValueError_int_literal\<close>:
  \<open>int()\<close> of a string that is no integer. \<open>ArangeZeroStep\<close>: \<open>np.arange\<close> with step 0.
  \<open>PyteomicsError\<close>: an error of the pyteomics library.
\<close>

subsection \<open>\<open>str(int)\<close> and \<open>int(str)\<close>\<close>

definition digit_char :: "nat \<Rightarrow> char" where
  "digit_char d = char_of (48 + d)"

fun str_nat :: "nat \<Rightarrow> string" where
  "str_nat n = (if n < 10 then [digit_char n] else str_nat (n div 10) @ [digit_char (n mod 10)])"

declare str_nat.simps [simp del]

definition py_str :: "int \<Rightarrow> string" where
  "py_str i = (if i < 0 then CHR ''-'' # str_nat (nat (- i)) else str_nat (nat i))"

text \<open>
  \<open>int(s)\<close> on an ASCII string: surrounding whitespace is stripped, one sign is allowed,
  and the digits may be separated by single underscores. Anything else raises ValueError.
\<close>

definition is_space :: "char \<Rightarrow> bool" where
  "is_space c = (let n = (of_char c :: nat) in n = 32 \<or> (9 \<le> n \<and> n \<le> 13))"

definition strip :: "string \<Rightarrow> string" where
  "strip s = rev (dropWhile is_space (rev (dropWhile is_space s)))"

definition digit_of :: "char \<Rightarrow> nat option" where
  "digit_of c = (let n = (of_char c :: nat) in if 48 \<le> n \<and> n \<le> 57 then Some (n - 48) else None)"

fun py_digits :: "nat \<Rightarrow> string \<Rightarrow> nat option" where
  "py_digits acc [] = Some acc"
| "py_digits acc [c] = (case digit_of c of None \<Rightarrow> None | Some v \<Rightarrow> Some (acc * 10 + v))"
| "py_digits acc (c # d # ds) =
     (if c = CHR ''_''
      then (case digit_of d of None \<Rightarrow> None | Some v \<Rightarrow> py_digits (acc * 10 + v) ds)
      else (case digit_of c of None \<Rightarrow> None | Some v \<Rightarrow> py_digits (acc * 10 + v) (d # ds)))"

definition py_unsigned :: "string \<Rightarrow> nat option" where
  "py_unsigned s =
     (case s of [] \<Rightarrow> None
      | c # cs \<Rightarrow> (case digit_of c of None \<Rightarrow> None | Some v \<Rightarrow> py_digits v cs))"

definition py_int :: "string \<Rightarrow> error + int" where
  "py_int s =
     (let t = strip s;
          r = (case t of
                 [] \<Rightarrow> None
               | c # cs \<Rightarrow>
                   if c = CHR ''-'' then map_option (\<lambda>n. - int n) (py_unsigned cs)
                   else if c = CHR ''+'' then map_option int (py_unsigned cs)
                   else map_option int (py_unsigned t))
      in case r of None \<Rightarrow> Inl ValueError_int_literal | Some i \<Rightarrow> Inr i)"

subsection \<open>List slices\<close>

text \<open>\<open>xs[:p]\<close> and \<open>xs[s:]\<close>: a negative bound counts from the end, and every bound is
  clipped to the list; a slice never raises.\<close>

definition slice_to :: "'a list \<Rightarrow> int \<Rightarrow> 'a list" where
  "slice_to xs p = (if p < 0 then take (nat (int (length xs) + p)) xs else take (nat p) xs)"

definition slice_from :: "'a list \<Rightarrow> int \<Rightarrow> 'a list" where
  "slice_from xs s = (if s < 0 then drop (nat (int (length xs) + s)) xs else drop (nat s) xs)"

section \<open>Fragment ions: \<open>get_fragments\<close>\<close>

text \<open>
  \<open>parser.parse\<close> and \<open>mass.fast_mass2\<close> belong to the pyteomics library, not to this
  program: the model takes both as parameters. \<open>parse\<close> turns the sequence into its list
  of residue labels or raises; \<open>fast_mass2 seq ion_type charge\<close> (the mass table is the
  fixed \<open>aa_mass\<close>) gives the m/z or raises.
\<close>

record 'm fragment =
  seq :: string
  ion :: string
  mz :: 'm
  type :: char

definition n_terminal :: "char \<Rightarrow> bool" where
  "n_terminal t = (t = CHR ''a'' \<or> t = CHR ''b'' \<or> t = CHR ''c'')"

definition c_terminal :: "char \<Rightarrow> bool" where
  "c_terminal t = (t = CHR ''y'' \<or> t = CHR ''z'' \<or> t = CHR ''x'')"

text \<open>The body of the loop over \<open>fragment_ions\<close>, for one entry \<open>ion_s\<close>.\<close>

definition fragment_of ::
  "(string \<Rightarrow> char \<Rightarrow> int \<Rightarrow> error + 'm) \<Rightarrow> string list \<Rightarrow> int \<Rightarrow> string \<Rightarrow> error + 'm fragment" where
  "fragment_of fast_mass2 sequence' charge ion_s =
     (case ion_s of
        [] \<Rightarrow> Inl IndexError
      | ion_type # digits \<Rightarrow>
          (case py_int digits of
             Inl e \<Rightarrow> Inl e
           | Inr pos \<Rightarrow>
               (let sq = (if n_terminal ion_type then concat (slice_to sequence' pos)
                          else concat (slice_from sequence' (- pos)))
                in case fast_mass2 sq ion_type charge of
                     Inl e \<Rightarrow> Inl e
                   | Inr m \<Rightarrow>
                       Inr \<lparr>seq = sq,
                            ion = (if n_terminal ion_type then ion_type # py_str pos
                                   else if c_terminal ion_type
                                   then ion_type # py_str (int (length sequence') - pos + 1)
                                   else ion_s),
                            mz = m,
                            type = ion_type\<rparr>)))"

fun fragments_loop ::
  "(string \<Rightarrow> char \<Rightarrow> int \<Rightarrow> error + 'm) \<Rightarrow> string list \<Rightarrow> int \<Rightarrow> 'm fragment list \<Rightarrow> string list
     \<Rightarrow> error + 'm fragment list" where
  "fragments_loop fast_mass2 sequence' charge fragments [] = Inr fragments"
| "fragments_loop fast_mass2 sequence' charge fragments (ion_s # rest) =
     (case fragment_of fast_mass2 sequence' charge ion_s of
        Inl e \<Rightarrow> Inl e
      | Inr f \<Rightarrow> fragments_loop fast_mass2 sequence' charge (fragments @ [f]) rest)"

definition get_fragments ::
  "(string \<Rightarrow> error + string list) \<Rightarrow> (string \<Rightarrow> char \<Rightarrow> int \<Rightarrow> error + 'm) \<Rightarrow> string \<Rightarrow> string list \<Rightarrow> int
     \<Rightarrow> error + 'm fragment list" where
  "get_fragments parse fast_mass2 sequence fragment_ions selected_charge_state =
     (case parse sequence of
        Inl e \<Rightarrow> Inl e
      | Inr sequence' \<Rightarrow> fragments_loop fast_mass2 sequence' selected_charge_state [] fragment_ions)"

text \<open>
  Stand-ins for the two library functions, used to run \<open>get_fragments\<close> on concrete
  input. \<open>parse_unmodified\<close> is the library's tokeniser on a sequence of capital letters
  (no modification prefixes, no terminal groups): one label per letter; on any other
  string the stand-in reports an error, although the library accepts more.
  \<open>fast_mass2_call\<close> keeps the m/z symbolic: the value is the call itself.
\<close>

definition is_upper :: "char \<Rightarrow> bool" where
  "is_upper c = (let n = (of_char c :: nat) in 65 \<le> n \<and> n \<le> 90)"

definition parse_unmodified :: "string \<Rightarrow> error + string list" where
  "parse_unmodified s = (if s \<noteq> [] \<and> list_all is_upper s then Inr (map (\<lambda>c. [c]) s) else Inl PyteomicsError)"

datatype mass_call = Fast_mass2 string char int

definition fast_mass2_call :: "string \<Rightarrow> char \<Rightarrow> int \<Rightarrow> error + mass_call" where
  "fast_mass2_call s t z = Inr (Fast_mass2 s t z)"

section \<open>Spectra and numpy arrays\<close>

text \<open>
  A spectrum is the dictionary the mzML reader yields. Its two arrays are values. Its
  \<open>scanList\<close> entry is a reference to a nested dictionary: \<open>dict.copy()\<close> is shallow,
  so a copy of a spectrum shares that dictionary with the original. The store maps the
  address of a \<open>scanList\<close> dictionary to its \<open>scan\<close> list. Keys the program reads are
  fields here, so a missing key is excluded by the types.
\<close>

record scan_window =
  scan_window_lower_limit :: rat
  scan_window_upper_limit :: rat

record scan =
  scan_start_time :: rat
  filter_string :: string
  scanWindow :: "scan_window list"

record spectrum =
  mz_array :: "rat list"
  intensity_array :: "rat list"
  scanList :: nat

type_synonym store = "nat \<Rightarrow> scan list"


definition np_min :: "rat list \<Rightarrow> error + rat" where
  "np_min xs = (case xs of [] \<Rightarrow> Inl ValueError_zero_size | x # r \<Rightarrow> Inr (fold min r x))"

definition np_unique :: "rat list \<Rightarrow> rat list" where
  "np_unique xs = sort (remdups xs)"

definition np_diff :: "rat list \<Rightarrow> rat list" where
  "np_diff xs = map2 (\<lambda>a b. b - a) xs (tl xs)"

text \<open>\<open>np.arange(start, stop, step)\<close>: \<open>ceil((stop - start) / step)\<close> values from \<open>start\<close>
  in steps of \<open>step\<close>; a zero step raises (ZeroDivisionError or ValueError, by the
  version of numpy).\<close>

definition np_arange :: "rat \<Rightarrow> rat \<Rightarrow> rat \<Rightarrow> error + rat list" where
  "np_arange start stop step =
     (if step = 0 then Inl ArangeZeroStep
      else Inr (map (\<lambda>i. start + of_nat i * step) [0..<nat \<lceil>(stop - start) / step\<rceil>]))"

text \<open>
  \<open>np.interp\<close> as numpy documents it for increasing sample points \<open>xp\<close>: below \<open>xp[0]\<close>
  the value is \<open>left\<close>, above \<open>xp[-1]\<close> it is \<open>right\<close> (by default \<open>fp[0]\<close> and \<open>fp[-1]\<close>),
  and in between it lies on the line through the two neighbouring samples. It raises
  ValueError when \<open>xp\<close> is empty or \<open>fp\<close> has another length.
\<close>

fun interp_points :: "rat \<Rightarrow> (rat \<times> rat) list \<Rightarrow> rat" where
  "interp_points x [] = 0"
| "interp_points x [(x0, y0)] = y0"
| "interp_points x ((x0, y0) # (x1, y1) # ps) =
     (if x < x1 then (y1 - y0) / (x1 - x0) * (x - x0) + y0
      else interp_points x ((x1, y1) # ps))"

definition interp_at :: "rat list \<Rightarrow> rat list \<Rightarrow> rat option \<Rightarrow> rat option \<Rightarrow> rat \<Rightarrow> rat" where
  "interp_at xp fp left right x =
     (if x < hd xp then (case left of None \<Rightarrow> hd fp | Some l \<Rightarrow> l)
      else if last xp < x then (case right of None \<Rightarrow> last fp | Some r \<Rightarrow> r)
      else interp_points x (zip xp fp))"

definition np_interp :: "rat list \<Rightarrow> rat list \<Rightarrow> rat list \<Rightarrow> rat option \<Rightarrow> rat option \<Rightarrow> error + rat list" where
  "np_interp xs xp fp left right =
     (if xp = [] \<or> length fp \<noteq> length xp then Inl ValueError_interp
      else Inr (map (interp_at xp fp left right) xs))"

definition np_interp1 :: "rat \<Rightarrow> rat list \<Rightarrow> rat list \<Rightarrow> rat option \<Rightarrow> rat option \<Rightarrow> error + rat" where
  "np_interp1 x xp fp left right =
     (if xp = [] \<or> length fp \<noteq> length xp then Inl ValueError_interp
      else Inr (interp_at xp fp left right x))"





section \<open>Peak detection and centroids\<close>








section \<open>Averaging: \<open>average_spectra\<close>\<close>

text \<open>\<open>'{:.2f}'.format(x)\<close>: the exact value rounded to two decimals, ties to even.\<close>

definition round_half_even :: "rat \<Rightarrow> int" where
  "round_half_even y =
     (let f = \<lfloor>y\<rfloor>; d = y - of_int f in
      if d < 1 / 2 then f else if 1 / 2 < d then f + 1 else if even f then f else f + 1)"

definition fmt_2f :: "rat \<Rightarrow> string" where
  "fmt_2f x =
     (let n = nat (round_half_even (\<bar>x\<bar> * 100)) in
      (if x < 0 then ''-'' else []) @ str_nat (n div 100) @ ''.'' @
      [digit_char (n mod 100 div 10), digit_char (n mod 10)])"

text \<open>The label written at the end of \<open>average_spectra\<close>. The \<open>filter_string\<close> argument is
  given by its \<open>str()\<close> rendering; the default \<open>None\<close> renders as \<open>None\<close>.\<close>

definition av_label :: "rat \<Rightarrow> rat \<Rightarrow> string option \<Rightarrow> string" where
  "av_label t0 tn filter_string' =
     ''AV: '' @ fmt_2f t0 @ ''-'' @ fmt_2f tn @ ''; '' @
     (case filter_string' of None \<Rightarrow> ''None'' | Some s \<Rightarrow> s)"

text \<open>\<open>spectrum['scanList']['scan'][0]\<close> and \<open>scan['scanWindowList']['scanWindow'][0]\<close>.\<close>

definition first_scan :: "store \<Rightarrow> spectrum \<Rightarrow> error + scan" where
  "first_scan st sp = (case st (scanList sp) of [] \<Rightarrow> Inl IndexError | sc # _ \<Rightarrow> Inr sc)"

definition first_window :: "scan \<Rightarrow> error + scan_window" where
  "first_window sc = (case scanWindow sc of [] \<Rightarrow> Inl IndexError | w # _ \<Rightarrow> Inr w)"

text \<open>The loop over \<open>spectra\<close> that adds each interpolated scan to \<open>merge_intensity\<close>.\<close>

fun merge_loop :: "rat list \<Rightarrow> rat list \<Rightarrow> spectrum list \<Rightarrow> error + rat list" where
  "merge_loop reference_mz merge_intensity [] = Inr merge_intensity"
| "merge_loop reference_mz merge_intensity (scan # rest) =
     (case np_interp reference_mz (mz_array scan) (intensity_array scan) (Some 0) (Some 0) of
        Inl e \<Rightarrow> Inl e
      | Inr v \<Rightarrow> merge_loop reference_mz (map2 (+) merge_intensity v) rest)"

text \<open>
  The function returns the new spectrum and the store after the call: the last
  assignment writes the label through the \<open>scanList\<close> reference that the copy shares
  with \<open>spectra[0]\<close>.
\<close>

definition average_spectra ::
  "store \<Rightarrow> spectrum list \<Rightarrow> rat option \<Rightarrow> string option \<Rightarrow> error + store \<times> spectrum" where
  "average_spectra st spectra bin_width filter_string' =
     (case spectra of
        [] \<Rightarrow> Inl IndexError
      | first # _ \<Rightarrow>
          (let reference_scan = np_unique (mz_array first) in
           case (case bin_width of None \<Rightarrow> np_min (np_diff reference_scan) | Some w \<Rightarrow> Inr w) of
             Inl e \<Rightarrow> Inl e
           | Inr bin_width' \<Rightarrow>
           (case first_scan st first of
             Inl e \<Rightarrow> Inl e
           | Inr sc0 \<Rightarrow>
           (case first_window sc0 of
             Inl e \<Rightarrow> Inl e
           | Inr win \<Rightarrow>
           (case np_arange (scan_window_lower_limit win) (scan_window_upper_limit win) bin_width' of
             Inl e \<Rightarrow> Inl e
           | Inr reference_mz \<Rightarrow>
           (case merge_loop reference_mz (map (\<lambda>_. 0) reference_mz) spectra of
             Inl e \<Rightarrow> Inl e
           | Inr merged \<Rightarrow>
           (let merge_intensity = map (\<lambda>v. v / of_nat (length spectra)) merged;
                avg_spec = first\<lparr>mz_array := reference_mz, intensity_array := merge_intensity\<rparr>
            in case first_scan st (last spectra) of
                 Inl e \<Rightarrow> Inl e
               | Inr scn \<Rightarrow>
                   (let label = av_label (scan_start_time sc0) (scan_start_time scn) filter_string';
                        a = scanList avg_spec
                    in Inr (st(a := (st a)[0 := (st a ! 0)\<lparr>filter_string := label\<rparr>]),
                            avg_spec)))))))))"

section \<open>Interpolation across energies: \<open>interpolate_spectra\<close>\<close>

text \<open>The result dictionary is an association list in insertion order: a dictionary
  built from \<open>target_energies\<close> keeps the first occurrence of every key.\<close>

definition dict_keys :: "rat list \<Rightarrow> rat list" where
  "dict_keys ks = rev (remdups (rev ks))"

definition dict_append :: "(rat \<times> rat list) list \<Rightarrow> rat \<Rightarrow> rat \<Rightarrow> (rat \<times> rat list) list" where
  "dict_append d k v = map (\<lambda>(k', vs). if k' = k then (k', vs @ [v]) else (k', vs)) d"

text \<open>\<open>[intensity_arrays[j][i] for j in range(len(energies))]\<close>.\<close>

fun column :: "rat list list \<Rightarrow> nat \<Rightarrow> nat list \<Rightarrow> error + rat list" where
  "column intensity_arrays i [] = Inr []"
| "column intensity_arrays i (j # js) =
     (if length intensity_arrays \<le> j then Inl IndexError
      else if length (intensity_arrays ! j) \<le> i then Inl IndexError
      else (case column intensity_arrays i js of
              Inl e \<Rightarrow> Inl e
            | Inr vs \<Rightarrow> Inr (intensity_arrays ! j ! i # vs)))"

text \<open>The inner loop over \<open>target_energies\<close>, with the range check of the source.\<close>

fun targets_loop ::
  "rat list \<Rightarrow> rat list \<Rightarrow> (rat \<times> rat list) list \<Rightarrow> rat list \<Rightarrow> error + (rat \<times> rat list) list" where
  "targets_loop energies intensities interpolated [] = Inr interpolated"
| "targets_loop energies intensities interpolated (target_energy # rest) =
     (if energies = [] then Inl IndexError
      else if target_energy < hd energies \<or> last energies < target_energy
      then Inl (ValueError_target_energy target_energy)
      else (case np_interp1 target_energy energies intensities None None of
              Inl e \<Rightarrow> Inl e
            | Inr v \<Rightarrow>
                targets_loop energies intensities (dict_append interpolated target_energy v) rest))"

text \<open>The outer loop over the indices of the first intensity array.\<close>

fun bins_loop ::
  "rat list \<Rightarrow> rat list \<Rightarrow> rat list list \<Rightarrow> (rat \<times> rat list) list \<Rightarrow> nat list
     \<Rightarrow> error + (rat \<times> rat list) list" where
  "bins_loop energies target_energies intensity_arrays interpolated [] = Inr interpolated"
| "bins_loop energies target_energies intensity_arrays interpolated (i # is) =
     (case column intensity_arrays i [0..<length energies] of
        Inl e \<Rightarrow> Inl e
      | Inr intensities \<Rightarrow>
          (case targets_loop energies intensities interpolated target_energies of
             Inl e \<Rightarrow> Inl e
           | Inr interpolated' \<Rightarrow>
               bins_loop energies target_energies intensity_arrays interpolated' is))"

definition interpolate_spectra ::
  "spectrum list \<Rightarrow> rat list \<Rightarrow> rat list \<Rightarrow> error + (rat \<times> rat list) list" where
  "interpolate_spectra spectra target_energies energies =
     (let intensity_arrays = map intensity_array spectra;
          interpolated_spectra = map (\<lambda>target_energy. (target_energy, [])) (dict_keys target_energies)
      in case intensity_arrays of
           [] \<Rightarrow> Inl IndexError
         | a0 # _ \<Rightarrow>
             bins_loop energies target_energies intensity_arrays interpolated_spectra [0..<length a0])"

section \<open>Example data\<close>

text \<open>Two scans with their metadata, used to run the functions on concrete input: the
  store holds the \<open>scan\<close> list of the first at address 0 and of the second at address 1.\<close>

definition demo_store :: store where
  "demo_store a =
     (if a = 0
      then [\<lparr>scan_start_time = 1 / 8, filter_string = ''ITMS + c ESI Full ms2'',
             scanWindow = [\<lparr>scan_window_lower_limit = 1, scan_window_upper_limit = 4\<rparr>]\<rparr>]
      else if a = 1
      then [\<lparr>scan_start_time = 5 / 2, filter_string = ''ITMS + c ESI Full ms2'',
             scanWindow = [\<lparr>scan_window_lower_limit = 1, scan_window_upper_limit = 4\<rparr>]\<rparr>]
      else [])"

definition demo_first :: spectrum where
  "demo_first = \<lparr>mz_array = [1, 2, 3], intensity_array = [10, 20, 40], scanList = 0\<rparr>"

definition demo_second :: spectrum where
  "demo_second = \<lparr>mz_array = [2, 3, 4], intensity_array = [2, 4, 6], scanList = 1\<rparr>"

section \<open>Properties of the fragment calculator\<close>

lemma fragments_loop_Inr:
  "fragments_loop fm rs z acc ions = Inr frs \<Longrightarrow>
     length frs = length acc + length ions \<and> take (length acc) frs = acc \<and>
     (\<forall>i<length ions. fragment_of fm rs z (ions ! i) = Inr (frs ! (length acc + i)))"
proof (induction ions arbitrary: acc)
  case Nil
  then show ?case by simp
next
  case (Cons ion_s rest)
  from Cons.prems obtain f where f: "fragment_of fm rs z ion_s = Inr f"
    and rec: "fragments_loop fm rs z (acc @ [f]) rest = Inr frs"
    by (auto split: sum.splits)
  from Cons.IH [OF rec] have len: "length frs = Suc (length acc) + length rest"
    and tk: "take (Suc (length acc)) frs = acc @ [f]"
    and nth: "\<forall>i<length rest. fragment_of fm rs z (rest ! i) = Inr (frs ! (Suc (length acc) + i))"
    by simp_all
  have "take (length acc) (take (Suc (length acc)) frs) = take (length acc) (acc @ [f])"
    by (simp only: tk)
  then have tk': "take (length acc) frs = acc" by simp
  have "(take (Suc (length acc)) frs) ! length acc = (acc @ [f]) ! length acc"
    by (simp only: tk)
  then have at: "frs ! length acc = f" by simp
  have "fragment_of fm rs z ((ion_s # rest) ! i) = Inr (frs ! (length acc + i))"
    if "i < length (ion_s # rest)" for i
  proof (cases i)
    case 0
    then show ?thesis using f at by simp
  next
    case (Suc j)
    then show ?thesis using that nth by simp
  qed
  then show ?case using len tk' by simp
qed


lemma fragment_of_Inr:
  assumes "fragment_of fm rs z (t # digits) = Inr f" and "py_int digits = Inr p"
  shows "seq f = (if n_terminal t then concat (slice_to rs p) else concat (slice_from rs (- p)))"
    and "ion f = (if n_terminal t then t # py_str p
                  else if c_terminal t then t # py_str (int (length rs) - p + 1)
                  else t # digits)"
    and "type f = t"
    and "fm (seq f) t z = Inr (mz f)"
  using assms by (auto simp: fragment_of_def Let_def split: sum.splits)

text \<open>
  Claim C2. Let the sequence tokenise into the residues \<open>rs\<close> and let the call return the
  fragments \<open>frs\<close>. Then there is one fragment per requested ion, and for the ion at index
  \<open>i\<close>, of type \<open>t\<close> and (1-based) position \<open>p\<close>: if \<open>t\<close> is a, b or c, its subsequence is
  the first \<open>p\<close> residues and its label is \<open>t\<close> followed by \<open>p\<close>; if \<open>t\<close> is x, y or z, its
  subsequence is the last \<open>p\<close> residues and its label is \<open>t\<close> followed by
  \<open>length rs - p + 1\<close>.
\<close>

theorem get_fragments_subsequence_and_label:
  assumes "parse sequence = Inr rs"
    and "get_fragments parse fast_mass sequence fragment_ions charge = Inr frs"
    and "i < length fragment_ions"
    and "fragment_ions ! i = t # digits"
    and "py_int digits = Inr p"
    and "1 \<le> p"
  shows "length frs = length fragment_ions \<and>
         (t \<in> {CHR ''a'', CHR ''b'', CHR ''c''} \<longrightarrow>
            seq (frs ! i) = concat (take (nat p) rs) \<and> ion (frs ! i) = t # py_str p) \<and>
         (t \<in> {CHR ''x'', CHR ''y'', CHR ''z''} \<longrightarrow>
            seq (frs ! i) = concat (drop (length rs - nat p) rs) \<and>
            ion (frs ! i) = t # py_str (int (length rs) - p + 1))"
proof -
  from assms(1,2) have loop: "fragments_loop fast_mass rs charge [] fragment_ions = Inr frs"
    by (simp add: get_fragments_def)
  from fragments_loop_Inr [OF loop] assms(3)
  have len: "length frs = length fragment_ions"
    and one: "fragment_of fast_mass rs charge (fragment_ions ! i) = Inr (frs ! i)"
    by simp_all
  have dr: "nat (int (length rs) - p) = length rs - nat p"
    using assms(6) by simp
  from fragment_of_Inr [OF one [unfolded assms(4)] assms(5)] assms(6) dr show ?thesis
    by (auto simp: len n_terminal_def c_terminal_def slice_to_def slice_from_def)
qed

theorem get_fragments_subsequence_and_label_witness:
  "let frs = [\<lparr>seq = ''MRF'', ion = ''c3'', mz = Fast_mass2 ''MRF'' CHR ''c'' 2, type = CHR ''c''\<rparr>,
              \<lparr>seq = ''A'', ion = ''z4'', mz = Fast_mass2 ''A'' CHR ''z'' 2, type = CHR ''z''\<rparr>]
   in get_fragments parse_unmodified fast_mass2_call ''MRFA'' [''c3'', ''z1''] 2 = Inr frs \<and>
      seq (frs ! 0) = concat (take 3 [''M'', ''R'', ''F'', ''A'']) \<and> ion (frs ! 0) = CHR ''c'' # py_str 3 \<and>
      seq (frs ! 1) = concat (drop (4 - 1) [''M'', ''R'', ''F'', ''A'']) \<and>
      ion (frs ! 1) = CHR ''z'' # py_str (4 - 1 + 1)"
proof -
  let ?rs = "[''M'', ''R'', ''F'', ''A'']"
  let ?frs = "[\<lparr>seq = ''MRF'', ion = ''c3'', mz = Fast_mass2 ''MRF'' CHR ''c'' 2, type = CHR ''c''\<rparr>,
              \<lparr>seq = ''A'', ion = ''z4'', mz = Fast_mass2 ''A'' CHR ''z'' 2, type = CHR ''z''\<rparr>]"
  have p: "parse_unmodified ''MRFA'' = Inr ?rs" by code_simp
  have g: "get_fragments parse_unmodified fast_mass2_call ''MRFA'' [''c3'', ''z1''] 2 = Inr ?frs"
    by code_simp
  have i3: "py_int ''3'' = Inr 3" by code_simp
  have i1: "py_int ''1'' = Inr 1" by code_simp
  have a: "length ?frs = length [''c3'', ''z1''] \<and>
         (CHR ''c'' \<in> {CHR ''a'', CHR ''b'', CHR ''c''} \<longrightarrow>
            seq (?frs ! 0) = concat (take (nat 3) ?rs) \<and> ion (?frs ! 0) = CHR ''c'' # py_str 3) \<and>
         (CHR ''c'' \<in> {CHR ''x'', CHR ''y'', CHR ''z''} \<longrightarrow>
            seq (?frs ! 0) = concat (drop (length ?rs - nat 3) ?rs) \<and>
            ion (?frs ! 0) = CHR ''c'' # py_str (int (length ?rs) - 3 + 1))"
    by (rule get_fragments_subsequence_and_label [OF p g _ _ i3]) simp_all
  have b: "length ?frs = length [''c3'', ''z1''] \<and>
         (CHR ''z'' \<in> {CHR ''a'', CHR ''b'', CHR ''c''} \<longrightarrow>
            seq (?frs ! 1) = concat (take (nat 1) ?rs) \<and> ion (?frs ! 1) = CHR ''z'' # py_str 1) \<and>
         (CHR ''z'' \<in> {CHR ''x'', CHR ''y'', CHR ''z''} \<longrightarrow>
            seq (?frs ! 1) = concat (drop (length ?rs - nat 1) ?rs) \<and>
            ion (?frs ! 1) = CHR ''z'' # py_str (int (length ?rs) - 1 + 1))"
    by (rule get_fragments_subsequence_and_label [OF p g _ _ i1]) simp_all
  from a b g show ?thesis by (simp add: Let_def)
qed

lemma py_int_2: "py_int ''2'' = Inr 2"
  by code_simp

lemma py_str_2_3: "py_str 2 = ''2''" "py_str 3 = ''3''"
  by code_simp+

text \<open>
  Claim C1, as the code has it. For the sequence MRFA (tokenised into its four residues)
  and charge 1, the ion b2 has the subsequence MR and the label b2; the ion y2 has the
  subsequence FA and the label y3, the label of a C-terminal ion being its type followed
  by \<open>length - position + 1 = 4 - 2 + 1\<close>.
\<close>

theorem get_fragments_MRFA:
  assumes "parse ''MRFA'' = Inr [''M'', ''R'', ''F'', ''A'']"
    and "fast_mass ''MR'' CHR ''b'' 1 = Inr m1"
    and "fast_mass ''FA'' CHR ''y'' 1 = Inr m2"
  shows "get_fragments parse fast_mass ''MRFA'' [''b2''] 1 =
           Inr [\<lparr>seq = ''MR'', ion = ''b2'', mz = m1, type = CHR ''b''\<rparr>] \<and>
         get_fragments parse fast_mass ''MRFA'' [''y2''] 1 =
           Inr [\<lparr>seq = ''FA'', ion = ''y3'', mz = m2, type = CHR ''y''\<rparr>]"
  using assms
  by (simp add: get_fragments_def fragment_of_def py_int_2 py_str_2_3 n_terminal_def
      c_terminal_def slice_to_def slice_from_def)

theorem get_fragments_MRFA_witness:
  "get_fragments parse_unmodified fast_mass2_call ''MRFA'' [''b2''] 1 =
     Inr [\<lparr>seq = ''MR'', ion = ''b2'', mz = Fast_mass2 ''MR'' CHR ''b'' 1, type = CHR ''b''\<rparr>] \<and>
   get_fragments parse_unmodified fast_mass2_call ''MRFA'' [''y2''] 1 =
     Inr [\<lparr>seq = ''FA'', ion = ''y3'', mz = Fast_mass2 ''FA'' CHR ''y'' 1, type = CHR ''y''\<rparr>]"
proof -
  have p: "parse_unmodified ''MRFA'' = Inr [''M'', ''R'', ''F'', ''A'']" by code_simp
  show ?thesis
    by (rule get_fragments_MRFA [of parse_unmodified fast_mass2_call, OF p])
      (simp_all add: fast_mass2_call_def)
qed

text \<open>The label the code gives the ion y2 of MRFA is y3, not y2.\<close>

theorem get_fragments_MRFA_y2_counterexample:
  "get_fragments parse_unmodified fast_mass2_call ''MRFA'' [''y2''] 1 =
     Inr [\<lparr>seq = ''FA'', ion = ''y3'', mz = Fast_mass2 ''FA'' CHR ''y'' 1, type = CHR ''y''\<rparr>]"
  by code_simp




section \<open>Properties of peak detection\<close>







section \<open>Properties of the centroid calculator\<close>









section \<open>Properties of the averager\<close>

text \<open>
  Claim C7. Called on an empty sequence of spectra, the averager fails: the first
  statement indexes \<open>spectra[0]\<close> and raises. No spectrum and no store is returned.
\<close>

theorem average_spectra_empty:
  "average_spectra st [] bin_width filter_string' = Inl IndexError"
  by (simp add: average_spectra_def)


text \<open>
  When the averager returns: the input is non-empty, every spectrum has at least one
  m/z value and as many intensities, the first scan has its metadata entry with a scan
  window and the last scan its metadata entry, and the bin width is not zero (given),
  or the first spectrum has two distinct m/z values (default).
\<close>

lemma merge_loop_returns:
  "(\<forall>s\<in>set spectra. mz_array s \<noteq> [] \<and> length (intensity_array s) = length (mz_array s)) \<Longrightarrow>
     \<exists>merged. merge_loop grid acc spectra = Inr merged"
  by (induction spectra arbitrary: acc) (auto simp: np_interp_def)

lemma np_diff_positive:
  "sorted ys \<Longrightarrow> distinct ys \<Longrightarrow> \<forall>d\<in>set (np_diff ys). 0 < d"
proof (induction ys rule: induct_list012)
  case 1
  then show ?case by (simp add: np_diff_def)
next
  case (2 x)
  then show ?case by (simp add: np_diff_def)
next
  case (3 x y zs)
  from 3(3,4) have "x < y" by (auto simp: less_le)
  moreover from 3 have "\<forall>d\<in>set (np_diff (y # zs)). 0 < d" by simp
  ultimately show ?case by (simp add: np_diff_def)
qed

lemma np_min_member: "ds \<noteq> [] \<Longrightarrow> \<exists>w. np_min ds = Inr w \<and> w \<in> set ds"
proof (cases ds)
  case Nil
  assume "ds \<noteq> []"
  with Nil show ?thesis by simp
next
  case (Cons a r)
  have "fold min r a = Min (set (a # r))" by (rule Min.set_eq_fold [symmetric])
  moreover have "Min (set (a # r)) \<in> set (a # r)" by (rule Min_in) simp_all
  ultimately show ?thesis using Cons by (simp add: np_min_def)
qed

lemma default_bin_width:
  assumes "2 \<le> card (set xs)"
  shows "\<exists>w. np_min (np_diff (np_unique xs)) = Inr w \<and> 0 < w"
proof -
  let ?ys = "np_unique xs"
  have s: "sorted ?ys" and d: "distinct ?ys" by (simp_all add: np_unique_def)
  have "length ?ys = card (set xs)" by (simp add: np_unique_def length_remdups_card_conv)
  with assms obtain a b zs where ys: "?ys = a # b # zs"
    by (cases ?ys; cases "tl ?ys") auto
  then have "np_diff ?ys \<noteq> []" by (simp add: np_diff_def)
  from np_min_member [OF this] np_diff_positive [OF s d] show ?thesis by blast
qed

lemma average_spectra_returns:
  assumes "spectra \<noteq> []"
    and "\<forall>s\<in>set spectra. mz_array s \<noteq> [] \<and> length (intensity_array s) = length (mz_array s)"
    and "st (scanList (hd spectra)) \<noteq> []"
    and "scanWindow (hd (st (scanList (hd spectra)))) \<noteq> []"
    and "st (scanList (last spectra)) \<noteq> []"
    and "case bin_width of None \<Rightarrow> 2 \<le> card (set (mz_array (hd spectra))) | Some w \<Rightarrow> w \<noteq> 0"
  shows "\<exists>st' avg_spec. average_spectra st spectra bin_width filter_string' = Inr (st', avg_spec)"
proof -
  from assms(1) obtain first rest where sp: "spectra = first # rest" by (cases spectra) auto
  have "\<exists>w. (case bin_width of None \<Rightarrow> np_min (np_diff (np_unique (mz_array first))) | Some w \<Rightarrow> Inr w)
          = Inr w \<and> w \<noteq> 0"
  proof (cases bin_width)
    case None
    with assms(6) sp default_bin_width [of "mz_array first"] show ?thesis by fastforce
  next
    case (Some w)
    with assms(6) show ?thesis by simp
  qed
  then obtain w where w: "(case bin_width of None \<Rightarrow> np_min (np_diff (np_unique (mz_array first)))
          | Some w \<Rightarrow> Inr w) = Inr w" and w0: "w \<noteq> 0" by blast
  from assms(3) sp obtain sc0 scs where f: "st (scanList first) = sc0 # scs"
    by (cases "st (scanList first)") auto
  with assms(4) sp obtain win wins where wi: "scanWindow sc0 = win # wins"
    by (cases "scanWindow sc0") auto
  from assms(5) obtain scn scns where l: "st (scanList (last spectra)) = scn # scns"
    by (cases "st (scanList (last spectra))") auto
  let ?grid = "map (\<lambda>i. scan_window_lower_limit win + of_nat i * w)
                 [0..<nat \<lceil>(scan_window_upper_limit win - scan_window_lower_limit win) / w\<rceil>]"
  from merge_loop_returns [OF assms(2)] obtain merged where
    m: "merge_loop ?grid (map (\<lambda>_. 0) ?grid) spectra = Inr merged" by blast
  have fs: "first_scan st first = Inr sc0" by (simp add: first_scan_def f)
  have fw: "first_window sc0 = Inr win" by (simp add: first_window_def wi)
  have ar: "np_arange (scan_window_lower_limit win) (scan_window_upper_limit win) w = Inr ?grid"
    using w0 by (simp add: np_arange_def)
  have ls: "first_scan st (last (first # rest)) = Inr scn"
    using l unfolding sp by (simp add: first_scan_def)
  show ?thesis
    unfolding average_spectra_def sp list.case Let_def w sum.case fs fw ar m [unfolded sp] ls
    by blast
qed





text \<open>
  The store after a call: only the \<open>scan\<close> list that \<open>spectra[0]\<close> refers to changes, and
  there only the filter string of its first entry, which becomes the label.
\<close>

lemma average_spectra_store:
  assumes "average_spectra st spectra bin_width filter_string' = Inr (st', avg_spec)"
  shows "\<exists>label. st' = st(scanList (hd spectra) :=
             (st (scanList (hd spectra)))
               [0 := (st (scanList (hd spectra)) ! 0)\<lparr>filter_string := label\<rparr>])"
  using assms unfolding average_spectra_def
  by (auto simp: Let_def simp del: merge_loop.simps split: list.splits sum.splits option.splits)

text \<open>
  Claim C10 fails on the code. \<open>avg_spec = spectra[0].copy()\<close> is a shallow copy, so the
  assignment to \<open>avg_spec['scanList']['scan'][0]['filter string']\<close> writes into the
  dictionary of the first input scan: before the call its filter string is the
  instrument's, after the call it is the label of the average.
\<close>

theorem average_spectra_overwrites_input_filter_string:
  "map filter_string (demo_store (scanList demo_first)) = [''ITMS + c ESI Full ms2''] \<and>
   map_sum id (\<lambda>(st', avg_spec). map filter_string (st' (scanList demo_first)))
     (average_spectra demo_store [demo_first, demo_second] None None) = Inr [''AV: 0.12-2.50; None'']"
  by code_simp

section \<open>Properties of the energy interpolator\<close>

lemma column_Inr:
  "(\<forall>j\<in>set js. j < length arrs \<and> i < length (arrs ! j)) \<Longrightarrow>
     \<exists>vs. column arrs i js = Inr vs \<and> length vs = length js"
  by (induction js) auto

lemma targets_loop_in_range:
  "energies \<noteq> [] \<Longrightarrow> length intensities = length energies \<Longrightarrow>
   (\<forall>t\<in>set ts. \<not> (t < hd energies \<or> last energies < t)) \<Longrightarrow>
     \<exists>d'. targets_loop energies intensities d ts = Inr d'"
  by (induction ts arbitrary: d) (auto simp: np_interp1_def)

lemma targets_loop_out_of_range:
  "energies \<noteq> [] \<Longrightarrow> length intensities = length energies \<Longrightarrow>
   (\<exists>t\<in>set ts. t < hd energies \<or> last energies < t) \<Longrightarrow>
     \<exists>t. targets_loop energies intensities d ts = Inl (ValueError_target_energy t)"
proof (induction ts arbitrary: d)
  case Nil
  then show ?case by simp
next
  case (Cons a ts)
  show ?case
  proof (cases "a < hd energies \<or> last energies < a")
    case True
    with Cons.prems(1) show ?thesis by auto
  next
    case False
    with Cons.prems(3) have "\<exists>t\<in>set ts. t < hd energies \<or> last energies < t" by auto
    from Cons.IH [OF Cons.prems(1,2) this] False Cons.prems(1,2) show ?thesis
      by (simp add: np_interp1_def)
  qed
qed

lemma targets_loop_error:
  "targets_loop energies intensities d ts = Inl (ValueError_target_energy t) \<Longrightarrow>
     t \<in> set ts \<and> (t < hd energies \<or> last energies < t)"
  by (induction ts arbitrary: d) (auto simp: np_interp1_def split: if_splits sum.splits)

lemma column_error: "column arrs i js = Inl e \<Longrightarrow> e = IndexError"
  by (induction js arbitrary: e) (auto split: if_splits sum.splits)

lemma bins_loop_error:
  "bins_loop energies ts arrs d is = Inl (ValueError_target_energy t) \<Longrightarrow>
     t \<in> set ts \<and> (t < hd energies \<or> last energies < t)"
proof (induction "is" arbitrary: d)
  case Nil
  then show ?case by simp
next
  case (Cons i "is")
  show ?case
  proof (cases "column arrs i [0..<length energies]")
    case (Inl e)
    with Cons.prems column_error [OF Inl] show ?thesis by simp
  next
    case (Inr vs)
    show ?thesis
    proof (cases "targets_loop energies vs d ts")
      case (Inl e)
      with Cons.prems Inr have "targets_loop energies vs d ts = Inl (ValueError_target_energy t)"
        by simp
      then show ?thesis by (rule targets_loop_error)
    next
      case r: (Inr d')
      with Cons.prems Inr have "bins_loop energies ts arrs d' is = Inl (ValueError_target_energy t)"
        by simp
      then show ?thesis by (rule Cons.IH)
    qed
  qed
qed

lemma bins_loop_in_range:
  assumes "energies \<noteq> []" and "length energies \<le> length arrs"
    and "\<forall>t\<in>set ts. \<not> (t < hd energies \<or> last energies < t)"
  shows "(\<forall>i\<in>set is. \<forall>j<length energies. i < length (arrs ! j)) \<Longrightarrow>
           \<exists>d'. bins_loop energies ts arrs d is = Inr d'"
proof (induction "is" arbitrary: d)
  case Nil
  then show ?case by simp
next
  case (Cons i "is")
  have "\<forall>j\<in>set [0..<length energies]. j < length arrs \<and> i < length (arrs ! j)"
    using Cons.prems assms(2) by auto
  from column_Inr [OF this] obtain vs where
    c: "column arrs i [0..<length energies] = Inr vs" and l: "length vs = length energies"
    by auto
  from targets_loop_in_range [OF assms(1) l assms(3)] obtain d' where
    t: "targets_loop energies vs d ts = Inr d'" by blast
  from Cons.prems have "\<forall>i\<in>set is. \<forall>j<length energies. i < length (arrs ! j)" by simp
  from Cons.IH [OF this] c t show ?case by simp
qed

lemma bins_loop_out_of_range:
  assumes "energies \<noteq> []" and "length energies \<le> length arrs"
    and "\<forall>j<length energies. i < length (arrs ! j)"
    and "\<exists>t\<in>set ts. t < hd energies \<or> last energies < t"
  shows "\<exists>t. bins_loop energies ts arrs d (i # is) = Inl (ValueError_target_energy t)"
proof -
  have "\<forall>j\<in>set [0..<length energies]. j < length arrs \<and> i < length (arrs ! j)"
    using assms(2,3) by auto
  from column_Inr [OF this] obtain vs where
    c: "column arrs i [0..<length energies] = Inr vs" and l: "length vs = length energies"
    by auto
  from targets_loop_out_of_range [OF assms(1) l assms(4)] obtain t where
    "targets_loop energies vs d ts = Inl (ValueError_target_energy t)" by blast
  with c show ?thesis by simp
qed

lemma sorted_hd_last:
  assumes "sorted (xs :: rat list)" and "xs \<noteq> []"
  shows "hd xs = Min (set xs)" and "last xs = Max (set xs)"
proof -
  have "\<forall>y\<in>set xs. hd xs \<le> y"
    using assms by (cases xs) auto
  then show "hd xs = Min (set xs)"
    using assms(2) by (intro Min_eqI [symmetric]) auto
  have "\<forall>y\<in>set xs. y \<le> last xs"
    using assms by (induction xs) (auto split: if_splits)
  then show "last xs = Max (set xs)"
    using assms(2) by (intro Max_eqI [symmetric]) auto
qed

text \<open>
  Claim C4, as the code has it. Let there be at least one known energy, one spectrum for
  each known energy, and let all intensity arrays have the same length, at least one
  bin. Then the interpolator raises its out-of-range error exactly when some requested
  target lies strictly below the first or strictly above the last known energy; when
  every target lies between them it returns. For known energies in ascending order the
  first is their minimum and the last their maximum.
\<close>

theorem interpolate_spectra_out_of_range:
  assumes "energies \<noteq> []"
    and "length energies \<le> length spectra"
    and "\<forall>s\<in>set spectra. length (intensity_array s) = n"
    and "0 < n"
  shows "((\<exists>t. interpolate_spectra spectra target_energies energies = Inl (ValueError_target_energy t))
            \<longleftrightarrow> (\<exists>t\<in>set target_energies. t < hd energies \<or> last energies < t)) \<and>
         ((\<forall>t\<in>set target_energies. hd energies \<le> t \<and> t \<le> last energies) \<longrightarrow>
            (\<exists>d. interpolate_spectra spectra target_energies energies = Inr d)) \<and>
         (sorted energies \<longrightarrow>
            hd energies = Min (set energies) \<and> last energies = Max (set energies))"
proof -
  let ?arrs = "map intensity_array spectra"
  let ?d = "map (\<lambda>target_energy. (target_energy, [])) (dict_keys target_energies)"
  from assms(1,2) obtain s0 rest where sp: "spectra = s0 # rest" by (cases spectra) auto
  with assms(3) have n0: "length (intensity_array s0) = n" by simp
  from assms(4) have bins: "[0..<n] = 0 # [1..<n]" by (simp add: upt_conv_Cons)
  have run: "interpolate_spectra spectra target_energies energies
               = bins_loop energies target_energies ?arrs ?d [0..<n]"
    by (simp add: interpolate_spectra_def sp n0 Let_def)
  have la: "length energies \<le> length ?arrs" using assms(2) by simp
  have each: "\<forall>j<length energies. length (?arrs ! j) = n"
    using assms(2,3) by (auto simp: nth_map)
  have out: "\<exists>t. interpolate_spectra spectra target_energies energies = Inl (ValueError_target_energy t)"
    if "\<exists>t\<in>set target_energies. t < hd energies \<or> last energies < t"
  proof -
    have "\<forall>j<length energies. 0 < length (?arrs ! j)" using each assms(4) by simp
    from bins_loop_out_of_range [OF assms(1) la this that, of ?d "[1..<n]"] show ?thesis
      by (simp only: run bins)
  qed
  have err: "\<exists>t\<in>set target_energies. t < hd energies \<or> last energies < t"
    if "interpolate_spectra spectra target_energies energies = Inl (ValueError_target_energy t)" for t
    using bins_loop_error [of energies target_energies ?arrs ?d "[0..<n]" t] that
    by (auto simp only: run)
  have inr: "\<exists>d. interpolate_spectra spectra target_energies energies = Inr d"
    if "\<forall>t\<in>set target_energies. hd energies \<le> t \<and> t \<le> last energies"
  proof -
    from that have a: "\<forall>t\<in>set target_energies. \<not> (t < hd energies \<or> last energies < t)"
      by (auto simp: not_less)
    have b: "\<forall>i\<in>set [0..<n]. \<forall>j<length energies. i < length (?arrs ! j)"
      using each by simp
    from bins_loop_in_range [OF assms(1) la a b] show ?thesis by (simp only: run)
  qed
  from out err inr sorted_hd_last [OF _ assms(1)] show ?thesis by blast
qed

theorem interpolate_spectra_out_of_range_witness:
  "(\<exists>t. interpolate_spectra (replicate 5 demo_first) [25] [0, 5, 10, 15, 20]
          = Inl (ValueError_target_energy t)) \<and>
   (\<exists>d. interpolate_spectra (replicate 5 demo_first) [0, 12, 20] [0, 5, 10, 15, 20] = Inr d) \<and>
   hd [0, 5, 10, 15, 20 :: rat] = Min (set [0, 5, 10, 15, 20]) \<and>
   last [0, 5, 10, 15, 20 :: rat] = Max (set [0, 5, 10, 15, 20])"
proof -
  have a: "[0, 5, 10, 15, 20 :: rat] \<noteq> []" by simp
  have b: "length [0, 5, 10, 15, 20 :: rat] \<le> length (replicate 5 demo_first)" by simp
  have c: "\<forall>s\<in>set (replicate 5 demo_first). length (intensity_array s) = 3"
    by (simp add: demo_first_def)
  have d: "0 < (3 :: nat)" by simp
  from interpolate_spectra_out_of_range [OF a b c d, of "[25]"]
    interpolate_spectra_out_of_range [OF a b c d, of "[0, 12, 20]"]
  show ?thesis by simp
qed

text \<open>With no m/z bin the range check is never reached: a target above every known
  energy raises nothing. With the known energies in descending order a target between
  them is refused.\<close>

theorem interpolate_spectra_counterexample:
  "interpolate_spectra
     (replicate 5 \<lparr>mz_array = [], intensity_array = [], scanList = 0\<rparr>) [25] [0, 5, 10, 15, 20]
     = Inr [(25, [])] \<and>
   interpolate_spectra [demo_first, demo_second] [3] [5, 0] = Inl (ValueError_target_energy 3)"
  by code_simp

end
